theory Spec2Isabelle
  imports Complex_Main
begin

section \<open>JavaScript values and the browser interface\<close>

text \<open>
  The handlers of the landing page (\<^verbatim>\<open>Landing\<close>, React) and of the static page
  (\<^verbatim>\<open>index.html\<close>) read the parsed body of an HTTP response. A parsed body is any
  JSON value; a property that is absent reads as \<^verbatim>\<open>undefined\<close>. An object is given
  by its fields, each key once, as \<^verbatim>\<open>response.json()\<close> returns it.
\<close>

datatype jsval =
    JUndefined
  | JNull
  | JBool bool
  | JNum real
  | JStr string
  | JArr "jsval list"
  | JObj "(string \<times> jsval) list"

text \<open>Truthiness, as used by \<^verbatim>\<open>!x\<close> and \<^verbatim>\<open>a || b\<close>.\<close>

fun truthy :: "jsval \<Rightarrow> bool" where
  "truthy JUndefined = False"
| "truthy JNull = False"
| "truthy (JBool b) = b"
| "truthy (JNum x) = (x \<noteq> 0)"
| "truthy (JStr s) = (s \<noteq> [])"
| "truthy (JArr xs) = True"
| "truthy (JObj fs) = True"

definition js_or :: "jsval \<Rightarrow> jsval \<Rightarrow> jsval" where
  "js_or a b = (if truthy a then a else b)"

datatype js_error = TypeError

text \<open>
  The property read \<^verbatim>\<open>data.k\<close> for the keys the handlers use (\<^verbatim>\<open>message\<close>,
  \<^verbatim>\<open>leader_configs\<close>, \<^verbatim>\<open>follower_configs\<close>), none of which is a built-in property
  of a string, number, boolean or array: reading from \<^verbatim>\<open>null\<close> or \<^verbatim>\<open>undefined\<close>
  throws, reading from an object gives the field or \<^verbatim>\<open>undefined\<close>, reading from any
  other value gives \<^verbatim>\<open>undefined\<close>.
\<close>

fun get_prop :: "jsval \<Rightarrow> string \<Rightarrow> js_error + jsval" where
  "get_prop JUndefined k = Inl TypeError"
| "get_prop JNull k = Inl TypeError"
| "get_prop (JObj fs) k = Inr (case map_of fs k of None \<Rightarrow> JUndefined | Some v \<Rightarrow> v)"
| "get_prop v k = Inr JUndefined"

text \<open>
  A request as handed to \<^verbatim>\<open>fetch\<close>. \<^verbatim>\<open>fetch(url)\<close> without options is a GET without
  headers or body. The field \<open>body\<close> holds the value given to \<^verbatim>\<open>JSON.stringify\<close>.
\<close>

record request =
  url :: string
  http_method :: string
  headers :: "(string \<times> string) list"
  body :: "jsval option"

text \<open>
  What awaiting \<^verbatim>\<open>fetch\<close> and then \<^verbatim>\<open>response.json()\<close> can give: the fetch promise
  rejects, or there is a response with its \<^verbatim>\<open>ok\<close> flag whose body parses to a value
  (\<open>Some\<close>) or does not parse (\<open>None\<close>, \<^verbatim>\<open>json()\<close> rejects).
\<close>

datatype fetch_outcome =
    FetchRejected
  | FetchResponse bool "jsval option"

datatype toast_variant = DefaultVariant | Destructive

text \<open>
  What awaiting \<^verbatim>\<open>getUserMedia\<close> can give: a rejection, or a stream with its tracks.
\<close>

datatype ready_state = Live | Ended

record track =
  kind :: string
  readyState :: ready_state

datatype media_outcome =
    MediaRejected
  | MediaStream "track list"

definition stop :: "track \<Rightarrow> track" where
  "stop t = t\<lparr>readyState := Ended\<rparr>"

text \<open>
  The observable actions of a handler, in the order in which it performs them.
  \<open>TrackStop i\<close> is \<^verbatim>\<open>track.stop()\<close> on the \<open>i\<close>-th track of \<^verbatim>\<open>getTracks()\<close>.
\<close>

datatype effect =
    Fetch request
  | Toast string jsval toast_variant
  | Navigate string
  | GetUserMedia bool bool
  | TrackStop nat

section \<open>The landing page\<close>

text \<open>The component state of \<^verbatim>\<open>Landing\<close>: one field for each \<^verbatim>\<open>useState\<close>.\<close>

record landing =
  robotModel :: string
  showPermissionModal :: bool
  showTeleoperationModal :: bool
  leaderPort :: string
  followerPort :: string
  leaderConfig :: string
  followerConfig :: string
  leaderConfigs :: jsval
  followerConfigs :: jsval
  isLoadingConfigs :: bool

definition initial_landing :: landing where
  "initial_landing =
     \<lparr>robotModel = [], showPermissionModal = False, showTeleoperationModal = False,
      leaderPort = ''/dev/tty.usbmodem5A460816421'',
      followerPort = ''/dev/tty.usbmodem5A460816621'',
      leaderConfig = [], followerConfig = [],
      leaderConfigs = JArr [], followerConfigs = JArr [],
      isLoadingConfigs = False\<rparr>"

subsection \<open>\<^verbatim>\<open>handleStartTeleoperation\<close>\<close>

definition move_arm_body :: "string \<Rightarrow> string \<Rightarrow> string \<Rightarrow> string \<Rightarrow> jsval" where
  "move_arm_body lp fp lc fc =
     JObj [(''leader_port'', JStr lp), (''follower_port'', JStr fp),
           (''leader_config'', JStr lc), (''follower_config'', JStr fc)]"

definition move_arm_request ::
  "string \<Rightarrow> string \<Rightarrow> string \<Rightarrow> string \<Rightarrow> string \<Rightarrow> request" where
  "move_arm_request u lp fp lc fc =
     \<lparr>url = u, http_method = ''POST'',
      headers = [(''Content-Type'', ''application/json'')],
      body = Some (move_arm_body lp fp lc fc)\<rparr>"

definition landing_request :: "landing \<Rightarrow> request" where
  "landing_request s =
     move_arm_request ''http://localhost:8000/move-arm''
       (leaderPort s) (followerPort s) (leaderConfig s) (followerConfig s)"

definition connection_error_toast :: effect where
  "connection_error_toast =
     Toast ''Connection Error'' (JStr ''Could not connect to the backend server.'') Destructive"

text \<open>
  The \<^verbatim>\<open>try\<close> block after the request was sent: \<open>None\<close> when it throws (the
  \<^verbatim>\<open>catch\<close> block then runs), otherwise the new state and the actions performed.
\<close>

definition start_teleoperation_try ::
  "landing \<Rightarrow> fetch_outcome \<Rightarrow> (landing \<times> effect list) option" where
  "start_teleoperation_try s fo =
     (case fo of
        FetchRejected \<Rightarrow> None
      | FetchResponse ok parsed \<Rightarrow>
          (case parsed of
             None \<Rightarrow> None
           | Some data \<Rightarrow>
               (if ok then
                  (case get_prop data ''message'' of
                     Inl e \<Rightarrow> None
                   | Inr m \<Rightarrow>
                       Some (s\<lparr>showTeleoperationModal := False\<rparr>,
                         [Toast ''Teleoperation Started''
                            (js_or m (JStr ''Successfully started teleoperation session.''))
                            DefaultVariant,
                          Navigate ''/teleoperation'']))
                else
                  (case get_prop data ''message'' of
                     Inl e \<Rightarrow> None
                   | Inr m \<Rightarrow>
                       Some (s,
                         [Toast ''Error Starting Teleoperation''
                            (js_or m (JStr ''Failed to start teleoperation session.''))
                            Destructive])))))"

definition handleStartTeleoperation ::
  "landing \<Rightarrow> fetch_outcome \<Rightarrow> landing \<times> effect list" where
  "handleStartTeleoperation s fo =
     (if leaderConfig s = [] \<or> followerConfig s = [] then
        (s, [Toast ''Missing Configuration''
               (JStr ''Please select calibration configs for both leader and follower.'')
               Destructive])
      else
        (case start_teleoperation_try s fo of
           Some (s', es) \<Rightarrow>
             (s', Fetch (landing_request s) # es)
         | None \<Rightarrow>
             (s, [Fetch (landing_request s), connection_error_toast])))"

subsection \<open>\<^verbatim>\<open>loadConfigs\<close>\<close>

definition get_configs_request :: "string \<Rightarrow> request" where
  "get_configs_request u = \<lparr>url = u, http_method = ''GET'', headers = [], body = None\<rparr>"

text \<open>
  The \<^verbatim>\<open>try\<close> block of \<^verbatim>\<open>loadConfigs\<close>: the state it leaves, and whether it threw
  (\<open>True\<close>). A setter that ran before a throw keeps its effect.
\<close>

definition load_configs_try :: "landing \<Rightarrow> fetch_outcome \<Rightarrow> landing \<times> bool" where
  "load_configs_try s fo =
     (case fo of
        FetchRejected \<Rightarrow> (s, True)
      | FetchResponse ok parsed \<Rightarrow>
          (case parsed of
             None \<Rightarrow> (s, True)
           | Some data \<Rightarrow>
               (case get_prop data ''leader_configs'' of
                  Inl e \<Rightarrow> (s, True)
                | Inr l \<Rightarrow>
                    (let s1 = s\<lparr>leaderConfigs := js_or l (JArr [])\<rparr> in
                     case get_prop data ''follower_configs'' of
                       Inl e \<Rightarrow> (s1, True)
                     | Inr f \<Rightarrow> (s1\<lparr>followerConfigs := js_or f (JArr [])\<rparr>, False)))))"

definition loadConfigs :: "landing \<Rightarrow> fetch_outcome \<Rightarrow> landing \<times> effect list" where
  "loadConfigs s fo =
     (let s0 = s\<lparr>isLoadingConfigs := True\<rparr>;
          (s1, thrown) = load_configs_try s0 fo;
          es = (if thrown then
                  [Toast ''Error Loading Configs''
                     (JStr ''Could not load calibration configs from the backend.'')
                     Destructive]
                else [])
      in (s1\<lparr>isLoadingConfigs := False\<rparr>,
          Fetch (get_configs_request ''http://localhost:8000/get-configs'') # es))"

subsection \<open>\<^verbatim>\<open>handleBeginSession\<close> and \<^verbatim>\<open>handleTeleoperationClick\<close>\<close>

definition handleBeginSession :: "landing \<Rightarrow> landing" where
  "handleBeginSession s =
     (if robotModel s \<noteq> [] then s\<lparr>showPermissionModal := True\<rparr> else s)"

definition handleTeleoperationClick ::
  "landing \<Rightarrow> fetch_outcome \<Rightarrow> landing \<times> effect list" where
  "handleTeleoperationClick s fo =
     (if robotModel s \<noteq> [] then loadConfigs (s\<lparr>showTeleoperationModal := True\<rparr>) fo
      else (s, []))"

subsection \<open>\<^verbatim>\<open>handlePermissions\<close>\<close>

text \<open>
  The result also gives the tracks of the stream the handler acquired, as they are when
  the handler returns (no tracks when it acquired no stream).
\<close>

definition handlePermissions ::
  "landing \<Rightarrow> bool \<Rightarrow> media_outcome \<Rightarrow> landing \<times> effect list \<times> track list" where
  "handlePermissions s allow mo =
     (let s0 = s\<lparr>showPermissionModal := False\<rparr> in
      if allow then
        (case mo of
           MediaStream tracks \<Rightarrow>
             (s0,
              GetUserMedia True True # map TrackStop [0 ..< length tracks] @
                [Toast ''Permissions Granted''
                   (JStr ''Camera and microphone access enabled. Entering control session...'')
                   DefaultVariant,
                 Navigate ''/control''],
              map stop tracks)
         | MediaRejected \<Rightarrow>
             (s0,
              [GetUserMedia True True,
               Toast ''Permission Denied''
                 (JStr ''Camera and microphone access is required for robot control.'')
                 Destructive],
              []))
      else
        (s0,
         [Toast ''Permission Denied''
            (JStr ''You can proceed, but with limited functionality.'')
            Destructive,
          Navigate ''/control''],
         []))"

section \<open>The static page \<^verbatim>\<open>index.html\<close>\<close>

text \<open>
  The page shows its messages in the element \<^verbatim>\<open>response\<close>. \<open>ShowValue v\<close> assigns the
  value \<open>v\<close> to its \<^verbatim>\<open>textContent\<close>; \<open>ShowError p\<close> assigns the prefix \<open>p\<close> followed
  by the message of the caught exception. The options of each of the two selects are
  listed by the value that was assigned to the option's \<^verbatim>\<open>value\<close> and \<^verbatim>\<open>textContent\<close>.
\<close>

datatype response_text =
    ShowValue jsval
  | ShowError string

record page =
  leaderOptions :: "jsval list"
  followerOptions :: "jsval list"
  response :: "response_text option"

text \<open>
  \<^verbatim>\<open>moveArm\<close> reads the two ports and the two selected configs from the form, in the
  order of the arguments here. It shows the \<^verbatim>\<open>message\<close> field of the response without
  looking at the \<^verbatim>\<open>ok\<close> flag.
\<close>

definition moveArm ::
  "page \<Rightarrow> string \<Rightarrow> string \<Rightarrow> string \<Rightarrow> string \<Rightarrow> fetch_outcome \<Rightarrow> page \<times> effect list" where
  "moveArm p followerPort' leaderPort' leaderConfig' followerConfig' fo =
     (if leaderConfig' = [] \<or> followerConfig' = [] then
        (p\<lparr>response := Some (ShowValue
             (JStr ''Please select calibration configs for both leader and follower''))\<rparr>,
         [])
      else
        (let req = move_arm_request ''/move-arm''
                     leaderPort' followerPort' leaderConfig' followerConfig' in
         case fo of
           FetchRejected \<Rightarrow> (p\<lparr>response := Some (ShowError ''Error: '')\<rparr>, [Fetch req])
         | FetchResponse ok parsed \<Rightarrow>
             (case parsed of
                None \<Rightarrow> (p\<lparr>response := Some (ShowError ''Error: '')\<rparr>, [Fetch req])
              | Some data \<Rightarrow>
                  (case get_prop data ''message'' of
                     Inl e \<Rightarrow> (p\<lparr>response := Some (ShowError ''Error: '')\<rparr>, [Fetch req])
                   | Inr m \<Rightarrow> (p\<lparr>response := Some (ShowValue m)\<rparr>, [Fetch req])))))"

text \<open>
  \<^verbatim>\<open>forEach\<close> is called on the two fields of the parsed body and throws unless the
  field is an array. Each element becomes one option.
\<close>

definition for_each_option :: "jsval \<Rightarrow> js_error + jsval list" where
  "for_each_option v = (case v of JArr xs \<Rightarrow> Inr xs | _ \<Rightarrow> Inl TypeError)"

text \<open>
  \<^verbatim>\<open>window.onload\<close> empties both selects once the body is parsed, then fills the leader
  select and the follower select, in this order; an exception on the way leaves the selects
  as they are at that point and shows the error.
\<close>

definition window_onload :: "page \<Rightarrow> fetch_outcome \<Rightarrow> page \<times> effect list" where
  "window_onload p fo =
     (let failed = (\<lambda>q. q\<lparr>response := Some (ShowError ''Error loading configs: '')\<rparr>);
          req = Fetch (get_configs_request ''/get-configs'')
      in case fo of
           FetchRejected \<Rightarrow> (failed p, [req])
         | FetchResponse ok parsed \<Rightarrow>
             (case parsed of
                None \<Rightarrow> (failed p, [req])
              | Some data \<Rightarrow>
                  (let p0 = p\<lparr>leaderOptions := [], followerOptions := []\<rparr> in
                   case get_prop data ''leader_configs'' of
                     Inl e \<Rightarrow> (failed p0, [req])
                   | Inr l \<Rightarrow>
                       (case for_each_option l of
                          Inl e \<Rightarrow> (failed p0, [req])
                        | Inr ls \<Rightarrow>
                            (let p1 = p0\<lparr>leaderOptions := ls\<rparr> in
                             case get_prop data ''follower_configs'' of
                               Inl e \<Rightarrow> (failed p1, [req])
                             | Inr f \<Rightarrow>
                                 (case for_each_option f of
                                    Inl e \<Rightarrow> (failed p1, [req])
                                  | Inr fs \<Rightarrow> (p1\<lparr>followerOptions := fs\<rparr>, [req])))))))"

section \<open>The visualizer core\<close>

text \<open>
  The pages above reach the visualizer through \<^verbatim>\<open>VisualizerPanel\<close> and
  \<^verbatim>\<open>UrdfProvider\<close>, whose sources are not among the files modelled above. The
  definitions of this section follow the specification of the kinematic model, the pose
  synchronizer and the session controller instead.
\<close>

subsection \<open>Kinematic model\<close>

text \<open>
  Modelled from the spec: the joint types (the source of the kinematic model is missing).
\<close>

datatype joint_type = Revolute | Prismatic | Fixed | Continuous

text \<open>
  Modelled from the spec: a joint has a type, an axis and the limits
  \<open>[lower_limit, upper_limit]\<close> of its value (the source of the kinematic model is
  missing). The parent and the child link of a joint are given by its place in the tree.
\<close>

record joint =
  joint_name :: string
  joint_kind :: joint_type
  axis :: "real \<times> real \<times> real"
  lower_limit :: real
  upper_limit :: real

text \<open>
  Modelled from the spec: the link tree (the source of the kinematic model is missing).
  A link has a name, an optional visual-geometry reference and a fixed offset transform
  relative to its parent joint; below it hang its child links, each with the joint that
  connects it to this link. The type \<open>'t\<close> is the type of transforms.
\<close>

datatype 't link =
  Link (link_name: string) (geometry: "string option") (offset: 't)
       (children: "(joint \<times> 't link) list")

text \<open>
  Modelled from the spec: the operations on transforms that the composition
  "parent link transform \<open>\<circ>\<close> fixed offset \<open>\<circ>\<close> joint transform(value)" uses (the source
  of the kinematic model is missing). The spec does not fix a representation of
  transforms, so the operations are parameters.
\<close>

record 't transform_ops =
  identity :: 't
  compose :: "'t \<Rightarrow> 't \<Rightarrow> 't"
  joint_transform :: "joint \<Rightarrow> real \<Rightarrow> 't"

text \<open>
  Modelled from the spec: the kinematic model (its source is missing) is the link tree,
  the mapping from joint name to current value, the derived mapping from link name to
  world transform, and the mark that \<open>set_joint_value\<close> leaves on the derived transforms.
\<close>

record 't kinematic_model =
  root :: "'t link"
  joint_values :: "string \<Rightarrow> real"
  link_transforms :: "string \<rightharpoonup> 't"
  dirty :: bool

text \<open>
  Modelled from the spec: the error of the accessors for a name that the model does not
  know (the source of the kinematic model is missing).
\<close>

datatype model_error = UnknownEntityError

text \<open>
  Modelled from the spec: the joints of the tree, top-down from the root (the source of
  the kinematic model is missing).
\<close>

fun joints_of :: "'t link \<Rightarrow> joint list" where
  "joints_of (Link n g off cs) =
     concat (map (\<lambda>jc. fst jc # joints_of (snd jc)) cs)"

text \<open>
  Modelled from the spec: the joint of a given name (the source of the kinematic model is
  missing).
\<close>

definition find_joint :: "'t link \<Rightarrow> string \<Rightarrow> joint option" where
  "find_joint r name = find (\<lambda>j. joint_name j = name) (joints_of r)"

text \<open>
  Modelled from the spec: the joints whose value is constrained to
  \<open>[lower_limit, upper_limit]\<close> (the source of the kinematic model is missing).
  Continuous joints have no limit, and fixed joints have no value to limit.
\<close>

definition has_limits :: "joint \<Rightarrow> bool" where
  "has_limits j = (joint_kind j = Revolute \<or> joint_kind j = Prismatic)"

text \<open>
  Modelled from the spec: clamping a value to the limits of a joint (the source of
  \<open>set_joint_value\<close> is missing).
\<close>

definition clamp_to_limits :: "joint \<Rightarrow> real \<Rightarrow> real" where
  "clamp_to_limits j v =
     (if has_limits j then max (lower_limit j) (min (upper_limit j) v) else v)"

text \<open>
  Modelled from the spec: \<open>set_joint_value(name, value)\<close>, whose source is missing,
  clamps to the joint's limits without raising for a value out of range, and marks the
  derived transforms dirty. A name that is no joint of the model is reported as
  \<open>UnknownEntityError\<close>, as the read accessors do.
\<close>

definition set_joint_value ::
  "string \<Rightarrow> real \<Rightarrow> 't kinematic_model \<Rightarrow> model_error + 't kinematic_model" where
  "set_joint_value name v m =
     (case find_joint (root m) name of
        None \<Rightarrow> Inl UnknownEntityError
      | Some j \<Rightarrow>
          Inr (m\<lparr>joint_values := (joint_values m)(name := clamp_to_limits j v),
                 dirty := True\<rparr>))"

text \<open>
  Modelled from the spec: the read accessor \<open>joint_value(name)\<close>, whose source is
  missing, fails with \<open>UnknownEntityError\<close> for an unrecognized name.
\<close>

definition joint_value :: "string \<Rightarrow> 't kinematic_model \<Rightarrow> model_error + real" where
  "joint_value name m =
     (case find_joint (root m) name of
        None \<Rightarrow> Inl UnknownEntityError
      | Some j \<Rightarrow> Inr (joint_values m name))"

text \<open>
  Modelled from the spec: the world transform of a link (the source of
  \<open>recompute_transforms\<close> is missing) is the composition of the parent link's transform,
  the link's fixed offset and the transform of its parent joint at the joint's value.
\<close>

definition link_world :: "'t transform_ops \<Rightarrow> 't \<Rightarrow> 't \<Rightarrow> 't \<Rightarrow> 't" where
  "link_world T parent off jt = compose T (compose T parent off) jt"

text \<open>
  Modelled from the spec: the single top-down traversal from the root (the source of
  \<open>recompute_transforms\<close> is missing). It lists, in traversal order, each link with
  its world transform, computed from the world transform of its parent link.
\<close>

fun world_transforms ::
  "'t transform_ops \<Rightarrow> (string \<Rightarrow> real) \<Rightarrow> 't \<Rightarrow> 't \<Rightarrow> 't link \<Rightarrow> (string \<times> 't) list" where
  "world_transforms T vals parent jt (Link n g off cs) =
     (let w = link_world T parent off jt in
      (n, w) #
      concat (map (\<lambda>jc. world_transforms T vals w
                           (joint_transform T (fst jc) (vals (joint_name (fst jc))))
                           (snd jc)) cs))"

text \<open>
  Modelled from the spec: writing the transform cache (the source of
  \<open>recompute_transforms\<close> is missing), one link after the other.
\<close>

definition write_cache ::
  "(string \<times> 't) list \<Rightarrow> (string \<rightharpoonup> 't) \<Rightarrow> (string \<rightharpoonup> 't)" where
  "write_cache ws cache = fold (\<lambda>nw c. c(fst nw \<mapsto> snd nw)) ws cache"

text \<open>
  Modelled from the spec: \<open>recompute_transforms()\<close>, whose source is missing, traverses
  the tree from the root, for which the identity stands for the transform of the parent
  and of the parent joint, and writes each link's world transform into the cache. The
  spec names no other write.
\<close>

definition recompute_transforms ::
  "'t transform_ops \<Rightarrow> 't kinematic_model \<Rightarrow> 't kinematic_model" where
  "recompute_transforms T m =
     m\<lparr>link_transforms :=
         write_cache
           (world_transforms T (joint_values m) (identity T) (identity T) (root m))
           (link_transforms m)\<rparr>"

subsection \<open>Pose synchronizer\<close>

text \<open>
  Modelled from the spec: a pose update (the source of the pose synchronizer is missing)
  is a timestamp with a mapping of joint name to value; it may name a subset of the
  joints. Timestamps are logical (sequence numbers).
\<close>

record pose_update =
  timestamp :: nat
  pose :: "(string \<times> real) list"

text \<open>
  Modelled from the spec: the pose synchronizer (its source is missing) keeps the
  timestamp of the last applied update (none before the first) and a single "latest
  known" slot for the update that waits for the next render frame. The discard rule
  compares the timestamp of an update as a whole, so one timestamp is kept for all joints.
\<close>

record 't synchronizer =
  model :: "'t kinematic_model"
  last_applied :: "nat option"
  slot :: "pose_update option"

text \<open>
  Modelled from the spec: the synchronizer of a new session (the source of the pose
  synchronizer is missing) has applied no update and holds none.
\<close>

definition new_synchronizer :: "'t kinematic_model \<Rightarrow> 't synchronizer" where
  "new_synchronizer m = \<lparr>model = m, last_applied = None, slot = None\<rparr>"

text \<open>
  Modelled from the spec: an update is stale when its timestamp is older than the last
  applied one (the source of the pose synchronizer is missing).
\<close>

definition is_stale :: "'t synchronizer \<Rightarrow> pose_update \<Rightarrow> bool" where
  "is_stale s u = (case last_applied s of None \<Rightarrow> False | Some t \<Rightarrow> timestamp u < t)"

text \<open>
  Modelled from the spec: of the updates that arrive before the next render frame only
  the most recent wins (the source of the pose synchronizer is missing): an update is
  superseded when it is stale or older than the update that waits in the slot.
\<close>

definition superseded :: "'t synchronizer \<Rightarrow> pose_update \<Rightarrow> bool" where
  "superseded s u =
     (is_stale s u \<or>
      (case slot s of None \<Rightarrow> False | Some w \<Rightarrow> timestamp u < timestamp w))"

text \<open>
  Modelled from the spec: receiving an update (the source of the pose synchronizer is
  missing). A newly received update whose timestamp is older than the last applied one,
  or older than the one that waits in the slot, is discarded; any other update takes the
  slot, replacing the update that waited there.
\<close>

definition receive_update :: "pose_update \<Rightarrow> 't synchronizer \<Rightarrow> 't synchronizer" where
  "receive_update u s = (if superseded s u then s else s\<lparr>slot := Some u\<rparr>)"

text \<open>
  Modelled from the spec: applying the values of an update (the source of the pose
  synchronizer is missing) sets each joint it names; a joint it does not name keeps its
  value, and an unknown joint name is skipped.
\<close>

fun apply_pose :: "(string \<times> real) list \<Rightarrow> 't kinematic_model \<Rightarrow> 't kinematic_model" where
  "apply_pose [] m = m"
| "apply_pose (nv # rest) m =
     (case set_joint_value (fst nv) (snd nv) m of
        Inl e \<Rightarrow> apply_pose rest m
      | Inr m' \<Rightarrow> apply_pose rest m')"

text \<open>
  Modelled from the spec: at a render frame the update in the slot is applied and becomes
  the last applied one (the source of the pose synchronizer is missing).
\<close>

definition apply_pending :: "'t synchronizer \<Rightarrow> 't synchronizer" where
  "apply_pending s =
     (case slot s of
        None \<Rightarrow> s
      | Some u \<Rightarrow>
          s\<lparr>model := apply_pose (pose u) (model s),
            last_applied := Some (timestamp u),
            slot := None\<rparr>)"

text \<open>
  Modelled from the spec: what happens to the synchronizer of an active session (the
  source of the pose synchronizer is missing): an update arrives, or a frame is rendered.
\<close>

datatype sync_event = Received pose_update | Frame

text \<open>
  Modelled from the spec: the synchronizer's reaction to one event (the source of the pose
  synchronizer is missing).
\<close>

fun sync_step :: "'t synchronizer \<Rightarrow> sync_event \<Rightarrow> 't synchronizer" where
  "sync_step s (Received u) = receive_update u s"
| "sync_step s Frame = apply_pending s"

text \<open>
  Modelled from the spec: the synchronizer's reaction to a sequence of events, oldest
  first (the source of the pose synchronizer is missing).
\<close>

definition sync_run :: "sync_event list \<Rightarrow> 't synchronizer \<Rightarrow> 't synchronizer" where
  "sync_run es s = foldl sync_step s es"

subsection \<open>Session controller\<close>

text \<open>
  Modelled from the spec: the states of the session controller (its source is missing).
\<close>

datatype session_state = Idle | Connecting | Active | Reconnecting | Closed

text \<open>
  Modelled from the spec: the events the session controller reacts to (its source is
  missing): the creation of the session, a successful handshake or re-handshake, a
  transport failure, a heartbeat timeout, a failed retry attempt, and explicit teardown.
\<close>

datatype session_event =
    SessionCreated
  | HandshakeSucceeded
  | TransportFailed
  | HeartbeatTimedOut
  | RetryFailed
  | Teardown

text \<open>
  Modelled from the spec: what the session controller (its source is missing) asks of its
  surroundings: a retry attempt after a delay, the report of a terminal session failure to
  the UI, the release of the transport and the media handles.
\<close>

datatype session_output =
    ScheduleRetry nat
  | TerminalFailure
  | ReleaseResources

text \<open>
  Modelled from the spec: the session controller (its source is missing) is in one of the
  five states, counts the failed retry attempts of the current reconnection, and remembers
  whether teardown released the resources. \<open>emitted\<close> lists its outputs, oldest first.
\<close>

record controller =
  state :: session_state
  failed_attempts :: nat
  released :: bool
  base_delay :: nat
  emitted :: "session_output list"

text \<open>
  Modelled from the spec: the controller before the session is created, with the delay
  before the first retry attempt (the source of the session controller is missing).
\<close>

definition new_controller :: "nat \<Rightarrow> controller" where
  "new_controller d =
     \<lparr>state = Idle, failed_attempts = 0, released = False, base_delay = d, emitted = []\<rparr>"

text \<open>
  Modelled from the spec: the fixed cap of 5 retry attempts (the source of the session
  controller is missing).
\<close>

definition max_attempts :: nat where
  "max_attempts = 5"

text \<open>
  Modelled from the spec: exponential backoff (the source of the session controller is
  missing): the delay doubles with each failed attempt.
\<close>

definition backoff_delay :: "nat \<Rightarrow> nat \<Rightarrow> nat" where
  "backoff_delay d k = d * 2 ^ k"

text \<open>
  Modelled from the spec: recording an output (the source of the session controller is
  missing).
\<close>

definition emit :: "session_output \<Rightarrow> controller \<Rightarrow> controller" where
  "emit x c = c\<lparr>emitted := emitted c @ [x]\<rparr>"

text \<open>
  Modelled from the spec: \<open>Active \<rightarrow> Reconnecting\<close> (the source of the session controller
  is missing): no attempt has failed yet, and the first retry is scheduled.
\<close>

definition begin_reconnect :: "controller \<Rightarrow> controller" where
  "begin_reconnect c =
     emit (ScheduleRetry (backoff_delay (base_delay c) 0))
       (c\<lparr>state := Reconnecting, failed_attempts := 0\<rparr>)"

text \<open>
  Modelled from the spec: a failed retry attempt while reconnecting (the source of the
  session controller is missing). Below the cap the next retry is scheduled with the
  longer delay; at the cap the controller closes and reports the terminal failure.
\<close>

definition retry_failed :: "controller \<Rightarrow> controller" where
  "retry_failed c =
     (let n = Suc (failed_attempts c) in
      if n < max_attempts then
        emit (ScheduleRetry (backoff_delay (base_delay c) n)) (c\<lparr>failed_attempts := n\<rparr>)
      else
        emit TerminalFailure (c\<lparr>state := Closed, failed_attempts := n\<rparr>))"

text \<open>
  Modelled from the spec: explicit teardown (the source of the session controller is
  missing) closes from any state and releases the resources exactly once.
\<close>

definition teardown :: "controller \<Rightarrow> controller" where
  "teardown c =
     (if released c then c\<lparr>state := Closed\<rparr>
      else emit ReleaseResources (c\<lparr>state := Closed, released := True\<rparr>))"

text \<open>
  Modelled from the spec: the transitions of the session controller (its source is
  missing): \<open>Idle \<rightarrow> Connecting \<rightarrow> Active \<rightarrow> Reconnecting\<close>, \<open>Reconnecting \<rightarrow> Active\<close>,
  \<open>Reconnecting \<rightarrow> Closed\<close> and teardown from any state. An event for which the spec names
  no transition from the current state leaves the controller as it is.
\<close>

fun session_step :: "controller \<Rightarrow> session_event \<Rightarrow> controller" where
  "session_step c Teardown = teardown c"
| "session_step c ev =
     (case state c of
        Idle \<Rightarrow> (if ev = SessionCreated then c\<lparr>state := Connecting\<rparr> else c)
      | Connecting \<Rightarrow> (if ev = HandshakeSucceeded then c\<lparr>state := Active\<rparr> else c)
      | Active \<Rightarrow>
          (if ev = TransportFailed \<or> ev = HeartbeatTimedOut then begin_reconnect c else c)
      | Reconnecting \<Rightarrow>
          (if ev = HandshakeSucceeded then c\<lparr>state := Active\<rparr>
           else if ev = RetryFailed then retry_failed c
           else c)
      | Closed \<Rightarrow> c)"

text \<open>
  Modelled from the spec: the controller's reaction to a sequence of events, oldest first
  (the source of the session controller is missing).
\<close>

definition session_run :: "session_event list \<Rightarrow> controller \<Rightarrow> controller" where
  "session_run es c = foldl session_step c es"

subsection \<open>Invariants\<close>

text \<open>
  An invariant of the synchronizer: the update that waits in the slot is not older than
  the last applied one.
\<close>

definition slot_fresh :: "'t synchronizer \<Rightarrow> bool" where
  "slot_fresh s = (case slot s of None \<Rightarrow> True | Some u \<Rightarrow> \<not> is_stale s u)"

text \<open>
  The synchronizer knows an update of the timestamp \<open>t\<close> or a later one: it has applied
  one, or one waits in the slot.
\<close>

definition knows_since :: "nat \<Rightarrow> 't synchronizer \<Rightarrow> bool" where
  "knows_since t s =
     ((case last_applied s of None \<Rightarrow> False | Some l \<Rightarrow> t \<le> l) \<or>
      (case slot s of None \<Rightarrow> False | Some w \<Rightarrow> t \<le> timestamp w))"

text \<open>
  An invariant of the controller: a terminal failure is reported at most once, and only by
  a transition into \<open>Closed\<close>; while reconnecting, fewer than \<open>max_attempts\<close> attempts
  have failed.
\<close>

definition failure_reported_once :: "controller \<Rightarrow> bool" where
  "failure_reported_once c =
     (count_list (emitted c) TerminalFailure \<le> 1 \<and>
      (state c \<noteq> Closed \<longrightarrow> count_list (emitted c) TerminalFailure = 0) \<and>
      (state c = Reconnecting \<longrightarrow> failed_attempts c < max_attempts))"

section \<open>Concrete inputs\<close>

text \<open>A landing page on which a robot model and both calibration configs are selected.\<close>

definition ready_landing :: landing where
  "ready_landing =
     initial_landing\<lparr>robotModel := ''SO100'', showTeleoperationModal := True,
       leaderConfig := ''leader_a'', followerConfig := ''follower_a''\<rparr>"

definition two_tracks :: "track list" where
  "two_tracks = [\<lparr>kind = ''video'', readyState = Live\<rparr>, \<lparr>kind = ''audio'', readyState = Live\<rparr>]"

text \<open>The landing page while the permission dialog is open.\<close>

definition permission_prompt :: landing where
  "permission_prompt =
     initial_landing\<lparr>robotModel := ''SO100'', showPermissionModal := True\<rparr>"

text \<open>A body of \<^verbatim>\<open>/get-configs\<close> with one config for each arm, and one without fields.\<close>

definition configs_body :: jsval where
  "configs_body =
     JObj [(''leader_configs'', JArr [JStr ''leader_a'']),
           (''follower_configs'', JArr [JStr ''follower_a''])]"

definition stored_landing :: landing where
  "stored_landing =
     ready_landing\<lparr>leaderConfigs := JArr [JStr ''leader_a''],
       followerConfigs := JArr [JStr ''follower_a'']\<rparr>"

text \<open>
  A model of two links joined by one revolute joint with the limits \<open>[0, 90]\<close> degrees.
  Its transforms are planar: a transform is the angle of a rotation about the joint axis,
  composition adds angles, the identity is the angle \<open>0\<close>.
\<close>

definition angle_ops :: "real transform_ops" where
  "angle_ops = \<lparr>identity = 0, compose = (+), joint_transform = (\<lambda>j v. v)\<rparr>"

definition joint1 :: joint where
  "joint1 =
     \<lparr>joint_name = ''joint1'', joint_kind = Revolute, axis = (0, 0, 1),
      lower_limit = 0, upper_limit = 90\<rparr>"

definition two_link_model :: "real kinematic_model" where
  "two_link_model =
     \<lparr>root = Link ''base'' None 0 [(joint1, Link ''arm'' None 0 [])],
      joint_values = (\<lambda>n. 0), link_transforms = Map.empty, dirty = False\<rparr>"

text \<open>The updates U1 and U2: U1 has the timestamp 5, U2 the older timestamp 3.\<close>

definition update1 :: pose_update where
  "update1 = \<lparr>timestamp = 5, pose = [(''joint1'', 45)]\<rparr>"

definition update2 :: pose_update where
  "update2 = \<lparr>timestamp = 3, pose = [(''joint1'', 10)]\<rparr>"

text \<open>A controller with a base delay of 100 in an active session.\<close>

definition active_controller :: controller where
  "active_controller =
     session_run [SessionCreated, HandshakeSucceeded] (new_controller 100)"

section \<open>Properties of the landing page and the static page\<close>

lemma start_teleoperation_try_no_fetch:
  "start_teleoperation_try s fo = Some (s', es) \<Longrightarrow> Fetch r \<notin> set es"
  by (auto simp: start_teleoperation_try_def
      split: fetch_outcome.splits option.splits if_splits sum.splits)

lemma load_configs_try_frame:
  "load_configs_try s fo = (s', t) \<Longrightarrow>
     s' = s\<lparr>leaderConfigs := leaderConfigs s', followerConfigs := followerConfigs s'\<rparr>"
  by (auto simp: load_configs_try_def Let_def
      split: fetch_outcome.splits option.splits sum.splits)

text \<open>
  C2. When the leader or the follower config is unselected (the empty string),
  \<^verbatim>\<open>handleStartTeleoperation\<close> shows the "Missing Configuration" notice and returns
  with the state unchanged and without a request; a request is sent only when both
  configs are selected. The static page's \<^verbatim>\<open>moveArm\<close> does the same with its message
  element.
\<close>

theorem missing_config_reported_without_request:
  "(leaderConfig s = [] \<or> followerConfig s = [] \<longrightarrow>
      handleStartTeleoperation s fo =
        (s, [Toast ''Missing Configuration''
               (JStr ''Please select calibration configs for both leader and follower.'')
               Destructive])
      \<and> (\<forall>r. Fetch r \<notin> set (snd (handleStartTeleoperation s fo))))
   \<and> (Fetch r \<in> set (snd (handleStartTeleoperation s fo)) \<longrightarrow>
        leaderConfig s \<noteq> [] \<and> followerConfig s \<noteq> [] \<and> r = landing_request s)
   \<and> (lc = [] \<or> fc = [] \<longrightarrow>
        moveArm p fp lp lc fc fo =
          (p\<lparr>response := Some (ShowValue
              (JStr ''Please select calibration configs for both leader and follower''))\<rparr>,
           []))
   \<and> (Fetch r \<in> set (snd (moveArm p fp lp lc fc fo)) \<longrightarrow> lc \<noteq> [] \<and> fc \<noteq> [])"
proof (intro conjI impI)
  assume "leaderConfig s = [] \<or> followerConfig s = []"
  then show "handleStartTeleoperation s fo =
        (s, [Toast ''Missing Configuration''
               (JStr ''Please select calibration configs for both leader and follower.'')
               Destructive])"
    and "\<forall>r. Fetch r \<notin> set (snd (handleStartTeleoperation s fo))"
    by (simp_all add: handleStartTeleoperation_def)
next
  assume "Fetch r \<in> set (snd (handleStartTeleoperation s fo))"
  then show "leaderConfig s \<noteq> []" and "followerConfig s \<noteq> []" and "r = landing_request s"
    by (auto simp: handleStartTeleoperation_def connection_error_toast_def
        dest: start_teleoperation_try_no_fetch split: option.splits if_splits)
next
  assume "lc = [] \<or> fc = []"
  then show "moveArm p fp lp lc fc fo =
          (p\<lparr>response := Some (ShowValue
              (JStr ''Please select calibration configs for both leader and follower''))\<rparr>,
           [])"
    by (simp add: moveArm_def)
next
  assume "Fetch r \<in> set (snd (moveArm p fp lp lc fc fo))"
  then show "lc \<noteq> []" and "fc \<noteq> []"
    by (auto simp: moveArm_def split: if_splits)
qed

theorem missing_config_reported_without_request_witness:
  "handleStartTeleoperation (ready_landing\<lparr>followerConfig := []\<rparr>) FetchRejected =
     (ready_landing\<lparr>followerConfig := []\<rparr>,
      [Toast ''Missing Configuration''
         (JStr ''Please select calibration configs for both leader and follower.'')
         Destructive])
   \<and> Fetch (landing_request ready_landing)
        \<in> set (snd (handleStartTeleoperation ready_landing FetchRejected))
   \<and> leaderConfig ready_landing \<noteq> [] \<and> followerConfig ready_landing \<noteq> []
   \<and> moveArm \<lparr>leaderOptions = [], followerOptions = [], response = None\<rparr>
        ''/dev/f'' ''/dev/l'' [] ''follower_a'' FetchRejected =
        (\<lparr>leaderOptions = [], followerOptions = [],
          response = Some (ShowValue
            (JStr ''Please select calibration configs for both leader and follower''))\<rparr>, [])"
  using missing_config_reported_without_request
          [of "ready_landing\<lparr>followerConfig := []\<rparr>" FetchRejected
              "landing_request ready_landing" "[]" "''follower_a''"
              "\<lparr>leaderOptions = [], followerOptions = [], response = None\<rparr>"
              "''/dev/f''" "''/dev/l''"]
        missing_config_reported_without_request
          [of ready_landing FetchRejected "landing_request ready_landing"]
  by (simp add: ready_landing_def initial_landing_def handleStartTeleoperation_def
      start_teleoperation_try_def)

text \<open>
  C3. With both configs selected, the first action of \<^verbatim>\<open>handleStartTeleoperation\<close> is a
  POST to \<^verbatim>\<open>/move-arm\<close> whose JSON body has exactly the fields \<^verbatim>\<open>leader_port\<close>,
  \<^verbatim>\<open>follower_port\<close>, \<^verbatim>\<open>leader_config\<close> and \<^verbatim>\<open>follower_config\<close>. The \<^verbatim>\<open>message\<close>
  field of the response is shown to the operator (a default text stands in when the field
  is absent or falsy): an ok response gives the "Teleoperation Started" notice, closes the
  configuration dialog and navigates to \<^verbatim>\<open>/teleoperation\<close>; a response that is not ok
  gives the destructive "Error Starting Teleoperation" notice and neither closes the dialog
  nor navigates. The static page's \<^verbatim>\<open>moveArm\<close> sends the same four fields and shows the
  \<^verbatim>\<open>message\<close> field.
\<close>

theorem begin_session_request_and_response:
  assumes "leaderConfig s \<noteq> []" and "followerConfig s \<noteq> []"
    and "lc \<noteq> []" and "fc \<noteq> []"
    and "get_prop data ''message'' = Inr m"
  shows "hd (snd (handleStartTeleoperation s fo)) =
           Fetch \<lparr>url = ''http://localhost:8000/move-arm'', http_method = ''POST'',
                  headers = [(''Content-Type'', ''application/json'')],
                  body = Some (JObj [(''leader_port'', JStr (leaderPort s)),
                                     (''follower_port'', JStr (followerPort s)),
                                     (''leader_config'', JStr (leaderConfig s)),
                                     (''follower_config'', JStr (followerConfig s))])\<rparr>
     \<and> handleStartTeleoperation s (FetchResponse True (Some data)) =
           (s\<lparr>showTeleoperationModal := False\<rparr>,
            [Fetch (landing_request s),
             Toast ''Teleoperation Started''
               (if truthy m then m else JStr ''Successfully started teleoperation session.'')
               DefaultVariant,
             Navigate ''/teleoperation''])
     \<and> handleStartTeleoperation s (FetchResponse False (Some data)) =
           (s,
            [Fetch (landing_request s),
             Toast ''Error Starting Teleoperation''
               (if truthy m then m else JStr ''Failed to start teleoperation session.'')
               Destructive])
     \<and> snd (moveArm p fp lp lc fc fo) =
           [Fetch \<lparr>url = ''/move-arm'', http_method = ''POST'',
                   headers = [(''Content-Type'', ''application/json'')],
                   body = Some (JObj [(''leader_port'', JStr lp),
                                      (''follower_port'', JStr fp),
                                      (''leader_config'', JStr lc),
                                      (''follower_config'', JStr fc)])\<rparr>]
     \<and> fst (moveArm p fp lp lc fc (FetchResponse ok (Some data))) =
           p\<lparr>response := Some (ShowValue m)\<rparr>"
proof (intro conjI)
  show "hd (snd (handleStartTeleoperation s fo)) =
           Fetch \<lparr>url = ''http://localhost:8000/move-arm'', http_method = ''POST'',
                  headers = [(''Content-Type'', ''application/json'')],
                  body = Some (JObj [(''leader_port'', JStr (leaderPort s)),
                                     (''follower_port'', JStr (followerPort s)),
                                     (''leader_config'', JStr (leaderConfig s)),
                                     (''follower_config'', JStr (followerConfig s))])\<rparr>"
    using assms(1,2)
    by (simp add: handleStartTeleoperation_def landing_request_def move_arm_request_def
        move_arm_body_def split: option.splits prod.splits)
next
  show "handleStartTeleoperation s (FetchResponse True (Some data)) =
           (s\<lparr>showTeleoperationModal := False\<rparr>,
            [Fetch (landing_request s),
             Toast ''Teleoperation Started''
               (if truthy m then m else JStr ''Successfully started teleoperation session.'')
               DefaultVariant,
             Navigate ''/teleoperation''])"
    using assms(1,2,5)
    by (simp add: handleStartTeleoperation_def start_teleoperation_try_def js_or_def)
next
  show "handleStartTeleoperation s (FetchResponse False (Some data)) =
           (s,
            [Fetch (landing_request s),
             Toast ''Error Starting Teleoperation''
               (if truthy m then m else JStr ''Failed to start teleoperation session.'')
               Destructive])"
    using assms(1,2,5)
    by (simp add: handleStartTeleoperation_def start_teleoperation_try_def js_or_def)
next
  show "snd (moveArm p fp lp lc fc fo) =
           [Fetch \<lparr>url = ''/move-arm'', http_method = ''POST'',
                   headers = [(''Content-Type'', ''application/json'')],
                   body = Some (JObj [(''leader_port'', JStr lp),
                                      (''follower_port'', JStr fp),
                                      (''leader_config'', JStr lc),
                                      (''follower_config'', JStr fc)])\<rparr>]"
    using assms(3,4)
    by (simp add: moveArm_def move_arm_request_def move_arm_body_def Let_def
        split: fetch_outcome.splits option.splits sum.splits)
next
  show "fst (moveArm p fp lp lc fc (FetchResponse ok (Some data))) =
           p\<lparr>response := Some (ShowValue m)\<rparr>"
    using assms(3,4,5) by (simp add: moveArm_def Let_def)
qed

theorem begin_session_request_and_response_witness:
  "handleStartTeleoperation ready_landing
     (FetchResponse True (Some (JObj [(''message'', JStr ''Teleoperation started'')]))) =
     (ready_landing\<lparr>showTeleoperationModal := False\<rparr>,
      [Fetch (landing_request ready_landing),
       Toast ''Teleoperation Started'' (JStr ''Teleoperation started'') DefaultVariant,
       Navigate ''/teleoperation''])
   \<and> handleStartTeleoperation ready_landing
     (FetchResponse False (Some (JObj [(''message'', JStr ''Teleoperation started'')]))) =
     (ready_landing,
      [Fetch (landing_request ready_landing),
       Toast ''Error Starting Teleoperation'' (JStr ''Teleoperation started'') Destructive])
   \<and> fst (moveArm \<lparr>leaderOptions = [], followerOptions = [], response = None\<rparr>
          ''/dev/f'' ''/dev/l'' ''leader_a'' ''follower_a''
          (FetchResponse True (Some (JObj [(''message'', JStr ''Teleoperation started'')])))) =
       \<lparr>leaderOptions = [], followerOptions = [],
        response = Some (ShowValue (JStr ''Teleoperation started''))\<rparr>"
  using begin_session_request_and_response
          [of ready_landing "''leader_a''" "''follower_a''"
              "JObj [(''message'', JStr ''Teleoperation started'')]"
              "JStr ''Teleoperation started''" FetchRejected
              "\<lparr>leaderOptions = [], followerOptions = [], response = None\<rparr>"
              "''/dev/f''" "''/dev/l''" True]
  by (simp add: ready_landing_def initial_landing_def)

text \<open>
  C4. \<^verbatim>\<open>loadConfigs\<close> sends one request, a GET to \<^verbatim>\<open>/get-configs\<close> without a body,
  stores the lists \<^verbatim>\<open>leader_configs\<close> and \<^verbatim>\<open>follower_configs\<close> of the response, and
  changes no field of the state other than \<open>leaderConfigs\<close>, \<open>followerConfigs\<close> and
  \<open>isLoadingConfigs\<close>. The static page's \<^verbatim>\<open>window.onload\<close> sends the same GET and
  offers the two lists as the options of its two selects.
\<close>

theorem load_configs_read_only:
  "(Fetch r \<in> set (snd (loadConfigs s fo)) \<longleftrightarrow>
      r = \<lparr>url = ''http://localhost:8000/get-configs'', http_method = ''GET'',
           headers = [], body = None\<rparr>)
   \<and> (map_of fs ''leader_configs'' = Some (JArr ls) \<and>
        map_of fs ''follower_configs'' = Some (JArr fls) \<longrightarrow>
        leaderConfigs (fst (loadConfigs s (FetchResponse ok (Some (JObj fs))))) = JArr ls \<and>
        followerConfigs (fst (loadConfigs s (FetchResponse ok (Some (JObj fs))))) = JArr fls \<and>
        window_onload p (FetchResponse ok (Some (JObj fs))) =
          (p\<lparr>leaderOptions := ls, followerOptions := fls\<rparr>,
           [Fetch \<lparr>url = ''/get-configs'', http_method = ''GET'', headers = [], body = None\<rparr>]))
   \<and> fst (loadConfigs s fo) =
         s\<lparr>leaderConfigs := leaderConfigs (fst (loadConfigs s fo)),
           followerConfigs := followerConfigs (fst (loadConfigs s fo)),
           isLoadingConfigs := False\<rparr>
   \<and> snd (window_onload p fo) =
         [Fetch \<lparr>url = ''/get-configs'', http_method = ''GET'', headers = [], body = None\<rparr>]"
proof (intro conjI impI)
  show "Fetch r \<in> set (snd (loadConfigs s fo)) \<longleftrightarrow>
      r = \<lparr>url = ''http://localhost:8000/get-configs'', http_method = ''GET'',
           headers = [], body = None\<rparr>"
    by (auto simp: loadConfigs_def get_configs_request_def Let_def split: prod.splits)
next
  assume a: "map_of fs ''leader_configs'' = Some (JArr ls) \<and>
        map_of fs ''follower_configs'' = Some (JArr fls)"
  then show "leaderConfigs (fst (loadConfigs s (FetchResponse ok (Some (JObj fs))))) = JArr ls"
    and "followerConfigs (fst (loadConfigs s (FetchResponse ok (Some (JObj fs))))) = JArr fls"
    by (simp_all add: loadConfigs_def load_configs_try_def js_or_def Let_def)
  from a show "window_onload p (FetchResponse ok (Some (JObj fs))) =
          (p\<lparr>leaderOptions := ls, followerOptions := fls\<rparr>,
           [Fetch \<lparr>url = ''/get-configs'', http_method = ''GET'', headers = [], body = None\<rparr>])"
    by (simp add: window_onload_def for_each_option_def get_configs_request_def Let_def)
next
  obtain s' t where st: "load_configs_try (s\<lparr>isLoadingConfigs := True\<rparr>) fo = (s', t)"
    by (cases "load_configs_try (s\<lparr>isLoadingConfigs := True\<rparr>) fo")
  from load_configs_try_frame [OF st]
  have "s'\<lparr>isLoadingConfigs := False\<rparr> =
          s\<lparr>leaderConfigs := leaderConfigs s', followerConfigs := followerConfigs s',
            isLoadingConfigs := False\<rparr>"
    by (metis (no_types) landing.surjective landing.update_convs(8,9,10) landing.select_convs)
  with st show "fst (loadConfigs s fo) =
         s\<lparr>leaderConfigs := leaderConfigs (fst (loadConfigs s fo)),
           followerConfigs := followerConfigs (fst (loadConfigs s fo)),
           isLoadingConfigs := False\<rparr>"
    by (simp add: loadConfigs_def Let_def)
next
  show "snd (window_onload p fo) =
         [Fetch \<lparr>url = ''/get-configs'', http_method = ''GET'', headers = [], body = None\<rparr>]"
    by (simp add: window_onload_def get_configs_request_def Let_def
        split: fetch_outcome.splits option.splits sum.splits)
qed

theorem load_configs_read_only_witness:
  "fst (loadConfigs ready_landing (FetchResponse True (Some configs_body))) = stored_landing
   \<and> window_onload \<lparr>leaderOptions = [JStr []], followerOptions = [JStr []], response = None\<rparr>
         (FetchResponse True (Some configs_body)) =
       (\<lparr>leaderOptions = [JStr ''leader_a''], followerOptions = [JStr ''follower_a''],
         response = None\<rparr>,
        [Fetch \<lparr>url = ''/get-configs'', http_method = ''GET'', headers = [], body = None\<rparr>])"
proof -
  let ?fs = "[(''leader_configs'', JArr [JStr ''leader_a'']),
              (''follower_configs'', JArr [JStr ''follower_a''])]"
  let ?fo = "FetchResponse True (Some (JObj ?fs))"
  let ?p = "\<lparr>leaderOptions = [JStr []], followerOptions = [JStr []], response = None\<rparr>"
  note t = load_configs_read_only
             [of "get_configs_request ''http://localhost:8000/get-configs''" ready_landing
                 ?fo ?fs "[JStr ''leader_a'']" "[JStr ''follower_a'']" True ?p]
  have sel: "map_of ?fs ''leader_configs'' = Some (JArr [JStr ''leader_a'']) \<and>
             map_of ?fs ''follower_configs'' = Some (JArr [JStr ''follower_a''])"
    by simp
  from t sel have l: "leaderConfigs (fst (loadConfigs ready_landing ?fo)) = JArr [JStr ''leader_a'']"
    and f: "followerConfigs (fst (loadConfigs ready_landing ?fo)) = JArr [JStr ''follower_a'']"
    and w: "window_onload ?p ?fo =
          (?p\<lparr>leaderOptions := [JStr ''leader_a''], followerOptions := [JStr ''follower_a'']\<rparr>,
           [Fetch \<lparr>url = ''/get-configs'', http_method = ''GET'', headers = [], body = None\<rparr>])"
    by blast+
  from t have "fst (loadConfigs ready_landing ?fo) =
         ready_landing\<lparr>leaderConfigs := leaderConfigs (fst (loadConfigs ready_landing ?fo)),
           followerConfigs := followerConfigs (fst (loadConfigs ready_landing ?fo)),
           isLoadingConfigs := False\<rparr>"
    by blast
  then have "fst (loadConfigs ready_landing ?fo) = stored_landing"
    unfolding l f by (simp add: stored_landing_def ready_landing_def initial_landing_def)
  with w show ?thesis
    by (simp add: configs_body_def)
qed

text \<open>
  C10. \<^verbatim>\<open>loadConfigs\<close> leaves \<open>isLoadingConfigs\<close> false whatever the fetch gave. When
  the field \<^verbatim>\<open>leader_configs\<close> (or \<^verbatim>\<open>follower_configs\<close>) of the parsed body reads as
  \<^verbatim>\<open>undefined\<close>, the empty list is stored for it. When the fetch is rejected or the body
  does not parse, both stored lists stay as they were and the error notice is shown.
  (A body that is \<^verbatim>\<open>null\<close> has no fields to read: the read throws, which is handled as
  a failed fetch.)
\<close>

theorem load_configs_resets_flag:
  "isLoadingConfigs (fst (loadConfigs s fo)) = False
   \<and> (get_prop data ''leader_configs'' = Inr JUndefined \<longrightarrow>
        leaderConfigs (fst (loadConfigs s (FetchResponse ok (Some data)))) = JArr [])
   \<and> (get_prop data ''follower_configs'' = Inr JUndefined \<longrightarrow>
        followerConfigs (fst (loadConfigs s (FetchResponse ok (Some data)))) = JArr [])
   \<and> (fo = FetchRejected \<or> fo = FetchResponse ok None \<or> fo = FetchResponse ok (Some JNull) \<longrightarrow>
        leaderConfigs (fst (loadConfigs s fo)) = leaderConfigs s \<and>
        followerConfigs (fst (loadConfigs s fo)) = followerConfigs s \<and>
        snd (loadConfigs s fo) =
          [Fetch (get_configs_request ''http://localhost:8000/get-configs''),
           Toast ''Error Loading Configs''
             (JStr ''Could not load calibration configs from the backend.'') Destructive])"
proof (intro conjI impI)
  show "isLoadingConfigs (fst (loadConfigs s fo)) = False"
    by (simp add: loadConfigs_def Let_def split: prod.splits)
next
  assume "get_prop data ''leader_configs'' = Inr JUndefined"
  then show "leaderConfigs (fst (loadConfigs s (FetchResponse ok (Some data)))) = JArr []"
    by (cases data)
      (simp_all add: loadConfigs_def load_configs_try_def js_or_def Let_def
        split: option.splits)
next
  assume "get_prop data ''follower_configs'' = Inr JUndefined"
  then show "followerConfigs (fst (loadConfigs s (FetchResponse ok (Some data)))) = JArr []"
    by (cases data)
      (simp_all add: loadConfigs_def load_configs_try_def js_or_def Let_def
        split: option.splits)
next
  assume a: "fo = FetchRejected \<or> fo = FetchResponse ok None \<or> fo = FetchResponse ok (Some JNull)"
  then show "leaderConfigs (fst (loadConfigs s fo)) = leaderConfigs s"
    and "followerConfigs (fst (loadConfigs s fo)) = followerConfigs s"
    and "snd (loadConfigs s fo) =
          [Fetch (get_configs_request ''http://localhost:8000/get-configs''),
           Toast ''Error Loading Configs''
             (JStr ''Could not load calibration configs from the backend.'') Destructive]"
    by (auto simp: loadConfigs_def load_configs_try_def)
qed

theorem load_configs_resets_flag_witness:
  "leaderConfigs (fst (loadConfigs stored_landing (FetchResponse True (Some (JObj []))))) = JArr []
   \<and> followerConfigs (fst (loadConfigs stored_landing (FetchResponse True (Some (JObj []))))) = JArr []
   \<and> isLoadingConfigs (fst (loadConfigs stored_landing (FetchResponse True (Some (JObj []))))) = False
   \<and> leaderConfigs (fst (loadConfigs stored_landing FetchRejected)) = JArr [JStr ''leader_a'']
   \<and> followerConfigs (fst (loadConfigs stored_landing FetchRejected)) = JArr [JStr ''follower_a'']
   \<and> isLoadingConfigs (fst (loadConfigs stored_landing FetchRejected)) = False"
  using load_configs_resets_flag
          [of stored_landing "FetchResponse True (Some (JObj []))" "JObj []" True]
        load_configs_resets_flag [of stored_landing FetchRejected "JObj []" True]
  by (simp add: stored_landing_def)

text \<open>
  C9. When the operator allows access and \<^verbatim>\<open>getUserMedia\<close> gives a stream,
  \<^verbatim>\<open>handlePermissions\<close> stops every track of the stream, in the order of
  \<^verbatim>\<open>getTracks()\<close>, right after the acquisition and before the notice and the navigation
  to \<^verbatim>\<open>/control\<close>. Whatever the outcome, every track of a stream the handler acquired is
  ended when the handler returns.
\<close>

theorem acquired_tracks_are_stopped:
  "handlePermissions s True (MediaStream tracks) =
     (s\<lparr>showPermissionModal := False\<rparr>,
      GetUserMedia True True # map TrackStop [0 ..< length tracks] @
        [Toast ''Permissions Granted''
           (JStr ''Camera and microphone access enabled. Entering control session...'')
           DefaultVariant,
         Navigate ''/control''],
      map stop tracks)
   \<and> length (snd (snd (handlePermissions s True (MediaStream tracks)))) = length tracks
   \<and> (\<forall>t \<in> set (snd (snd (handlePermissions s allow mo))). readyState t = Ended)"
proof (intro conjI)
  show "handlePermissions s True (MediaStream tracks) =
     (s\<lparr>showPermissionModal := False\<rparr>,
      GetUserMedia True True # map TrackStop [0 ..< length tracks] @
        [Toast ''Permissions Granted''
           (JStr ''Camera and microphone access enabled. Entering control session...'')
           DefaultVariant,
         Navigate ''/control''],
      map stop tracks)"
    by (simp add: handlePermissions_def)
  then show "length (snd (snd (handlePermissions s True (MediaStream tracks)))) = length tracks"
    by simp
  show "\<forall>t \<in> set (snd (snd (handlePermissions s allow mo))). readyState t = Ended"
    by (cases mo; cases allow) (auto simp: handlePermissions_def stop_def Let_def)
qed

theorem acquired_tracks_are_stopped_witness:
  "snd (snd (handlePermissions permission_prompt True (MediaStream two_tracks))) =
     [\<lparr>kind = ''video'', readyState = Ended\<rparr>, \<lparr>kind = ''audio'', readyState = Ended\<rparr>]
   \<and> readyState \<lparr>kind = ''video'', readyState = Ended\<rparr> = Ended
   \<and> readyState \<lparr>kind = ''audio'', readyState = Ended\<rparr> = Ended
   \<and> fst (snd (handlePermissions permission_prompt True (MediaStream two_tracks))) =
       [GetUserMedia True True, TrackStop 0, TrackStop 1,
        Toast ''Permissions Granted''
          (JStr ''Camera and microphone access enabled. Entering control session...'')
          DefaultVariant,
        Navigate ''/control'']"
  using acquired_tracks_are_stopped [of permission_prompt two_tracks True "MediaStream two_tracks"]
  by (simp add: two_tracks_def stop_def upt_rec)

text \<open>
  C1, as the claim states it, fails: when the operator allows access and the browser
  rejects the request, the handler shows the "Permission Denied" notice and does not
  navigate to the control session.
\<close>

theorem denied_by_browser_blocks_session:
  "\<not> ((\<not> True \<or> MediaRejected = MediaRejected) \<longrightarrow>
        Navigate ''/control''
          \<in> set (fst (snd (handlePermissions permission_prompt True MediaRejected))))"
  by (simp add: handlePermissions_def)

text \<open>
  C1, amended. When the operator declines access ("Continue without"),
  \<^verbatim>\<open>handlePermissions\<close> closes the dialog, tells the operator that functionality is
  limited and navigates to the control session, without asking for a stream. When the
  operator allows access and the browser rejects the request, it closes the dialog and
  tells the operator that access is required; it does not navigate.
\<close>

theorem declined_access_still_proceeds:
  "(\<not> allow \<longrightarrow>
      handlePermissions s allow mo =
        (s\<lparr>showPermissionModal := False\<rparr>,
         [Toast ''Permission Denied''
            (JStr ''You can proceed, but with limited functionality.'') Destructive,
          Navigate ''/control''],
         []))
   \<and> (allow \<and> mo = MediaRejected \<longrightarrow>
      handlePermissions s allow mo =
        (s\<lparr>showPermissionModal := False\<rparr>,
         [GetUserMedia True True,
          Toast ''Permission Denied''
            (JStr ''Camera and microphone access is required for robot control.'')
            Destructive],
         []))"
  by (simp add: handlePermissions_def)

theorem declined_access_still_proceeds_witness:
  "handlePermissions permission_prompt False MediaRejected =
     (permission_prompt\<lparr>showPermissionModal := False\<rparr>,
      [Toast ''Permission Denied''
         (JStr ''You can proceed, but with limited functionality.'') Destructive,
       Navigate ''/control''],
      [])
   \<and> handlePermissions permission_prompt True MediaRejected =
     (permission_prompt\<lparr>showPermissionModal := False\<rparr>,
      [GetUserMedia True True,
       Toast ''Permission Denied''
         (JStr ''Camera and microphone access is required for robot control.'')
         Destructive],
      [])"
  using declined_access_still_proceeds [of False permission_prompt MediaRejected]
        declined_access_still_proceeds [of True permission_prompt MediaRejected]
  by simp

section \<open>Properties of the visualizer core\<close>

lemma write_cache_eq: "write_cache ws c = c ++ map_of (rev ws)"
proof (induction ws arbitrary: c)
  case Nil
  show ?case by (simp add: write_cache_def)
next
  case (Cons a ws)
  have "write_cache (a # ws) c = write_cache ws (c(fst a \<mapsto> snd a))"
    by (simp add: write_cache_def)
  also have "\<dots> = c(fst a \<mapsto> snd a) ++ map_of (rev ws)"
    by (rule Cons.IH)
  also have "\<dots> = c ++ map_of (rev (a # ws))"
    by (rule ext) (simp add: map_add_def split: option.splits)
  finally show ?case .
qed

lemma write_cache_twice: "write_cache ws (write_cache ws c) = write_cache ws c"
  by (rule ext) (simp add: write_cache_eq map_add_def split: option.splits)

text \<open>
  The model at work on two links and one revolute joint with the limits \<open>[0, 90]\<close>: the
  value 120 is stored as 90, and after the value 45 and a recomputation the child link is
  rotated by 45 degrees against the base.
\<close>

lemma two_link_scenario:
  "joint_value ''joint1'' (apply_pose [(''joint1'', 120)] two_link_model) = Inr 90
   \<and> link_transforms
       (recompute_transforms angle_ops (apply_pose [(''joint1'', 45)] two_link_model))
       ''arm'' = Some 45
   \<and> link_transforms
       (recompute_transforms angle_ops (apply_pose [(''joint1'', 45)] two_link_model))
       ''base'' = Some 0"
  by (simp add: two_link_model_def set_joint_value_def find_joint_def joint1_def
      clamp_to_limits_def has_limits_def joint_value_def
      recompute_transforms_def write_cache_def link_world_def angle_ops_def)

text \<open>
  C8. \<open>recompute_transforms\<close> is idempotent: a second call with no \<open>set_joint_value\<close>
  in between returns the model of the first call, with the same link transforms. A call
  writes the cached world transforms and nothing else: the link tree, the joint values and
  the dirty mark are as before.
\<close>

theorem recompute_transforms_idempotent:
  "recompute_transforms T (recompute_transforms T m) = recompute_transforms T m
   \<and> link_transforms (recompute_transforms T (recompute_transforms T m)) =
       link_transforms (recompute_transforms T m)
   \<and> recompute_transforms T m =
       m\<lparr>link_transforms := link_transforms (recompute_transforms T m)\<rparr>
   \<and> root (recompute_transforms T m) = root m
   \<and> joint_values (recompute_transforms T m) = joint_values m
   \<and> dirty (recompute_transforms T m) = dirty m"
  by (simp add: recompute_transforms_def write_cache_twice)

text \<open>
  C5. For a joint with the limits \<open>[lower, upper]\<close> and a value outside that range,
  \<open>set_joint_value\<close> returns a model and no error; the model stores \<open>lower\<close> when the
  value is below the range and \<open>upper\<close> when it is above, which is never the value given,
  and its derived transforms are marked dirty.
\<close>

theorem set_joint_value_clamps:
  assumes "find_joint (root m) name = Some j"
    and "has_limits j"
    and "lower_limit j \<le> upper_limit j"
    and "v < lower_limit j \<or> upper_limit j < v"
  shows "set_joint_value name v m =
           Inr (m\<lparr>joint_values :=
                    (joint_values m)
                      (name := if v < lower_limit j then lower_limit j else upper_limit j),
                  dirty := True\<rparr>)
     \<and> (if v < lower_limit j then lower_limit j else upper_limit j) \<noteq> v
     \<and> (\<forall>m'. set_joint_value name v m = Inr m' \<longrightarrow>
            joint_value name m' =
              Inr (if v < lower_limit j then lower_limit j else upper_limit j) \<and>
            joint_values m' name \<noteq> v \<and> dirty m')"
  using assms
  by (auto simp: set_joint_value_def clamp_to_limits_def joint_value_def)

theorem set_joint_value_clamps_witness:
  "set_joint_value ''joint1'' 120 two_link_model =
     Inr (two_link_model\<lparr>joint_values := (\<lambda>n. 0)(''joint1'' := 90), dirty := True\<rparr>)
   \<and> set_joint_value ''joint1'' (- 30) two_link_model =
     Inr (two_link_model\<lparr>joint_values := (\<lambda>n. 0)(''joint1'' := 0), dirty := True\<rparr>)"
proof -
  have f: "find_joint (root two_link_model) ''joint1'' = Some joint1"
    by (simp add: two_link_model_def find_joint_def joint1_def)
  have l: "has_limits joint1" "lower_limit joint1 \<le> upper_limit joint1"
    by (simp_all add: has_limits_def joint1_def)
  have a: "(120::real) < lower_limit joint1 \<or> upper_limit joint1 < 120"
    and b: "(- 30::real) < lower_limit joint1 \<or> upper_limit joint1 < - 30"
    by (simp_all add: joint1_def)
  from set_joint_value_clamps [OF f l a] set_joint_value_clamps [OF f l b]
  show ?thesis
    by (simp add: joint1_def two_link_model_def)
qed

lemma slot_fresh_step: "slot_fresh s \<Longrightarrow> slot_fresh (sync_step s e)"
  by (cases e)
    (auto simp: slot_fresh_def receive_update_def superseded_def apply_pending_def
      is_stale_def split: option.splits)

lemma last_applied_step:
  "slot_fresh s \<Longrightarrow> last_applied s = Some t \<Longrightarrow>
     \<exists>t'. last_applied (sync_step s e) = Some t' \<and> t \<le> t'"
  by (cases e)
    (auto simp: slot_fresh_def receive_update_def superseded_def apply_pending_def
      is_stale_def split: option.splits)

lemma slot_fresh_run: "slot_fresh s \<Longrightarrow> slot_fresh (sync_run es s)"
  unfolding sync_run_def
  by (induction es arbitrary: s) (simp_all add: slot_fresh_step)

lemma last_applied_run:
  "slot_fresh s \<Longrightarrow> last_applied s = Some t \<Longrightarrow>
     \<exists>t'. last_applied (sync_run es s) = Some t' \<and> t \<le> t'"
  unfolding sync_run_def
proof (induction es arbitrary: s t)
  case Nil
  then show ?case by simp
next
  case (Cons e es)
  from last_applied_step [OF Cons.prems] obtain t1
    where t1: "last_applied (sync_step s e) = Some t1" "t \<le> t1" by blast
  from Cons.IH [OF slot_fresh_step [OF Cons.prems(1)] t1(1)] t1(2)
  show ?case by (auto intro: order_trans)
qed

lemma sync_run_append: "sync_run (es @ es') s = sync_run es' (sync_run es s)"
  by (simp add: sync_run_def)

lemma sync_run_Cons: "sync_run (e # es) s = sync_run es (sync_step s e)"
  by (simp add: sync_run_def)

lemma knows_since_step:
  "slot_fresh s \<Longrightarrow> knows_since t s \<Longrightarrow> knows_since t (sync_step s e)"
  by (cases e)
    (auto simp: slot_fresh_def knows_since_def receive_update_def superseded_def
      apply_pending_def is_stale_def split: option.splits)

lemma knows_since_run:
  "slot_fresh s \<Longrightarrow> knows_since t s \<Longrightarrow> knows_since t (sync_run es s)"
proof (induction es arbitrary: s)
  case Nil
  then show ?case by (simp add: sync_run_def)
next
  case (Cons e es)
  from Cons.IH [OF slot_fresh_step [OF Cons.prems(1)] knows_since_step [OF Cons.prems]]
  show ?case by (simp add: sync_run_Cons)
qed

lemma knows_since_superseded:
  "knows_since t s \<Longrightarrow> timestamp u < t \<Longrightarrow> superseded s u"
  by (auto simp: knows_since_def superseded_def is_stale_def split: option.splits)

lemma accepted_update:
  assumes "\<not> superseded s u"
  shows "receive_update u s = s\<lparr>slot := Some u\<rparr>"
    and "slot_fresh (receive_update u s)"
    and "knows_since (timestamp u) (receive_update u s)"
  using assms
  by (simp_all add: receive_update_def superseded_def slot_fresh_def knows_since_def
      is_stale_def)

lemma apply_pending_twice: "apply_pending (apply_pending s) = apply_pending s"
  by (simp add: apply_pending_def split: option.splits)

lemma frames_run: "sync_run (replicate (Suc n) Frame) s = apply_pending s"
proof (induction n arbitrary: s)
  case 0
  show ?case by (simp add: sync_run_def)
next
  case (Suc n)
  have "sync_run (replicate (Suc (Suc n)) Frame) s =
      sync_run (replicate (Suc n) Frame) (apply_pending s)"
    by (simp add: sync_run_def)
  also have "\<dots> = apply_pending (apply_pending s)"
    by (rule Suc.IH)
  finally show ?case by (simp add: apply_pending_twice)
qed

text \<open>
  C6. An update that is older than the last applied one is discarded on receipt: the
  synchronizer stays as it is. Once U1 was accepted, an older update U2 that arrives later
  is discarded, whatever arrived or was rendered in between, so every sequence of events
  ends as it would have ended without U2. Whether the frames are rendered before or after
  U2 arrives, from the first frame on the joint values are those that U1 gave and the last
  applied timestamp is that of U1. Over every sequence of received updates and frames, the
  timestamp of the last applied update never decreases.
\<close>

theorem stale_updates_are_discarded:
  "(last_applied s = Some t \<and> timestamp u < t \<longrightarrow> receive_update u s = s)
   \<and> (\<not> superseded s u1 \<and> timestamp u2 < timestamp u1 \<longrightarrow>
        sync_run (Received u1 # es @ Received u2 # es') s =
          sync_run (Received u1 # es @ es') s
        \<and> (0 < a + b \<longrightarrow>
             model (sync_run (Received u1 # replicate a Frame @
                                Received u2 # replicate b Frame) s) =
               apply_pose (pose u1) (model s)
             \<and> last_applied (sync_run (Received u1 # replicate a Frame @
                                Received u2 # replicate b Frame) s) =
               Some (timestamp u1)))
   \<and> (last_applied (sync_run es (new_synchronizer m)) = Some t \<longrightarrow>
        (\<exists>t'. last_applied (sync_run (es @ es') (new_synchronizer m)) = Some t' \<and> t \<le> t'))"
proof (intro conjI impI)
  assume "last_applied s = Some t \<and> timestamp u < t"
  then show "receive_update u s = s"
    by (simp add: receive_update_def superseded_def is_stale_def)
next
  assume a: "\<not> superseded s u1 \<and> timestamp u2 < timestamp u1"
  then have acc: "\<not> superseded s u1" and older: "timestamp u2 < timestamp u1"
    by simp_all
  have drop: "sync_run (Received u1 # xs @ Received u2 # ys) s =
      sync_run (Received u1 # xs @ ys) s" for xs ys
  proof -
    let ?s1 = "sync_run xs (receive_update u1 s)"
    have "knows_since (timestamp u1) ?s1"
      by (rule knows_since_run) (rule accepted_update [OF acc])+
    from knows_since_superseded [OF this older]
    have "receive_update u2 ?s1 = ?s1"
      by (simp add: receive_update_def)
    then show ?thesis
      by (simp add: sync_run_Cons sync_run_append)
  qed
  from drop show "sync_run (Received u1 # es @ Received u2 # es') s =
      sync_run (Received u1 # es @ es') s" .
  {
    assume pos: "0 < a + b"
    then obtain n where n: "a + b = Suc n"
      by (cases "a + b") simp_all
    have "sync_run (Received u1 # replicate a Frame @ Received u2 # replicate b Frame) s =
        sync_run (Received u1 # replicate a Frame @ replicate b Frame) s"
      by (rule drop)
    also have "\<dots> = sync_run (replicate (Suc n) Frame) (receive_update u1 s)"
      by (simp add: sync_run_Cons replicate_add [symmetric] n del: replicate_Suc)
    also have "\<dots> = apply_pending (s\<lparr>slot := Some u1\<rparr>)"
      by (simp only: frames_run accepted_update(1) [OF acc])
    finally have r: "sync_run (Received u1 # replicate a Frame @
        Received u2 # replicate b Frame) s = apply_pending (s\<lparr>slot := Some u1\<rparr>)" .
    show "model (sync_run (Received u1 # replicate a Frame @
                                Received u2 # replicate b Frame) s) =
               apply_pose (pose u1) (model s)"
      and "last_applied (sync_run (Received u1 # replicate a Frame @
                                Received u2 # replicate b Frame) s) =
               Some (timestamp u1)"
      unfolding r by (simp_all add: apply_pending_def)
  }
next
  assume a: "last_applied (sync_run es (new_synchronizer m)) = Some t"
  have "slot_fresh (sync_run es (new_synchronizer m))"
    by (rule slot_fresh_run) (simp add: slot_fresh_def new_synchronizer_def)
  from last_applied_run [OF this a]
  show "\<exists>t'. last_applied (sync_run (es @ es') (new_synchronizer m)) = Some t' \<and> t \<le> t'"
    by (simp add: sync_run_append)
qed

theorem stale_updates_are_discarded_witness:
  "joint_values
     (model (sync_run [Received update1, Received update2, Frame]
               (new_synchronizer two_link_model))) ''joint1'' = 45
   \<and> last_applied (sync_run [Received update1, Received update2, Frame]
               (new_synchronizer two_link_model)) = Some 5
   \<and> joint_values
     (model (sync_run [Received update1, Frame, Received update2, Frame]
               (new_synchronizer two_link_model))) ''joint1'' = 45
   \<and> last_applied (sync_run [Received update1, Frame, Received update2, Frame]
               (new_synchronizer two_link_model)) = Some 5
   \<and> receive_update update2 (sync_run [Received update1, Frame] (new_synchronizer two_link_model)) =
       sync_run [Received update1, Frame] (new_synchronizer two_link_model)"
proof -
  let ?s = "new_synchronizer two_link_model"
  have n: "\<not> superseded ?s update1 \<and> timestamp update2 < timestamp update1"
    by (simp add: superseded_def is_stale_def new_synchronizer_def update1_def update2_def)
  have p: "joint_values (apply_pose (pose update1) (model ?s)) ''joint1'' = 45"
    by (simp add: update1_def new_synchronizer_def two_link_model_def set_joint_value_def
        find_joint_def joint1_def clamp_to_limits_def has_limits_def)
  have ts: "timestamp update1 = 5" by (simp add: update1_def)
  note t0 = stale_updates_are_discarded
              [of ?s 5 update2 update1 update2 "[]" "[]" 0 1 two_link_model]
  have "(0::nat) < 0 + 1" by simp
  with t0 n have
    m0: "model (sync_run (Received update1 # replicate 0 Frame @
            Received update2 # replicate 1 Frame) ?s) = apply_pose (pose update1) (model ?s)"
    and l0: "last_applied (sync_run (Received update1 # replicate 0 Frame @
            Received update2 # replicate 1 Frame) ?s) = Some (timestamp update1)"
    by blast+
  note t1 = stale_updates_are_discarded
              [of ?s 5 update2 update1 update2 "[]" "[]" 1 1 two_link_model]
  have "(0::nat) < 1 + 1" by simp
  with t1 n have
    m1: "model (sync_run (Received update1 # replicate 1 Frame @
            Received update2 # replicate 1 Frame) ?s) = apply_pose (pose update1) (model ?s)"
    and l1: "last_applied (sync_run (Received update1 # replicate 1 Frame @
            Received update2 # replicate 1 Frame) ?s) = Some (timestamp update1)"
    by blast+
  let ?s1 = "sync_run [Received update1, Frame] ?s"
  have "last_applied ?s1 = Some 5 \<and> timestamp update2 < 5"
    by (simp add: sync_run_def receive_update_def superseded_def is_stale_def
        apply_pending_def new_synchronizer_def update1_def update2_def)
  with stale_updates_are_discarded
         [of ?s1 5 update2 update1 update2 "[]" "[]" 0 1 two_link_model]
  have d: "receive_update update2 ?s1 = ?s1" by blast
  from m0 l0 m1 l1 d p ts show ?thesis by simp
qed

lemma session_run_append: "session_run (es @ es') c = session_run es' (session_run es c)"
  by (simp add: session_run_def)

lemma session_run_Cons: "session_run (e # es) c = session_run es (session_step c e)"
  by (simp add: session_run_def)

lemma closed_step:
  "state c = Closed \<Longrightarrow>
     state (session_step c e) = Closed \<and>
     (emitted (session_step c e) = emitted c \<or>
      (\<not> released c \<and> released (session_step c e) \<and>
       emitted (session_step c e) = emitted c @ [ReleaseResources]))"
  by (cases e) (simp_all add: teardown_def emit_def)

lemma closed_step_released:
  "state c = Closed \<Longrightarrow> released c \<Longrightarrow>
     released (session_step c e) \<and> emitted (session_step c e) = emitted c"
  by (cases e) (simp_all add: teardown_def emit_def)

lemma closed_run_released:
  "state c = Closed \<Longrightarrow> released c \<Longrightarrow>
     state (session_run es c) = Closed \<and> emitted (session_run es c) = emitted c"
proof (induction es arbitrary: c)
  case Nil
  then show ?case by (simp add: session_run_def)
next
  case (Cons e es)
  from closed_step [OF Cons.prems(1)] closed_step_released [OF Cons.prems]
  have "state (session_step c e) = Closed" "released (session_step c e)"
    "emitted (session_step c e) = emitted c" by simp_all
  with Cons.IH [of "session_step c e"] show ?case
    by (simp add: session_run_Cons)
qed

lemma closed_run:
  "state c = Closed \<Longrightarrow>
     state (session_run es c) = Closed \<and>
     (emitted (session_run es c) = emitted c \<or>
      emitted (session_run es c) = emitted c @ [ReleaseResources])"
proof (induction es arbitrary: c)
  case Nil
  then show ?case by (simp add: session_run_def)
next
  case (Cons e es)
  from closed_step [OF Cons.prems]
  have st: "state (session_step c e) = Closed"
    and em: "emitted (session_step c e) = emitted c \<or>
      (released (session_step c e) \<and>
       emitted (session_step c e) = emitted c @ [ReleaseResources])"
    by auto
  from em show ?case
  proof
    assume "emitted (session_step c e) = emitted c"
    with Cons.IH [OF st] show ?thesis by (simp add: session_run_Cons)
  next
    assume "released (session_step c e) \<and>
       emitted (session_step c e) = emitted c @ [ReleaseResources]"
    with closed_run_released [OF st, of es] show ?thesis
      by (simp add: session_run_Cons)
  qed
qed

lemma failure_reported_once_step:
  "failure_reported_once c \<Longrightarrow> failure_reported_once (session_step c e)"
  by (cases e; cases "state c")
    (auto simp: failure_reported_once_def teardown_def emit_def begin_reconnect_def
      retry_failed_def Let_def max_attempts_def)

lemma failure_reported_once_run:
  "failure_reported_once c \<Longrightarrow> failure_reported_once (session_run es c)"
  unfolding session_run_def
  by (induction es arbitrary: c) (simp_all add: failure_reported_once_step)

lemma replicate_five: "replicate 5 x = [x, x, x, x, x]"
  by (simp add: numeral_eq_Suc)

lemma five_failures:
  assumes "state c = Active" and "ev = TransportFailed \<or> ev = HeartbeatTimedOut"
  shows "session_run (ev # replicate 5 RetryFailed) c =
     c\<lparr>state := Closed, failed_attempts := 5,
       emitted := emitted c @
         [ScheduleRetry (base_delay c), ScheduleRetry (base_delay c * 2),
          ScheduleRetry (base_delay c * 4), ScheduleRetry (base_delay c * 8),
          ScheduleRetry (base_delay c * 16), TerminalFailure]\<rparr>"
proof -
  let ?d = "base_delay c"
  define c0 where "c0 = session_step c ev"
  have c0: "c0 = c\<lparr>state := Reconnecting, failed_attempts := 0,
      emitted := emitted c @ [ScheduleRetry ?d]\<rparr>"
    using assms by (auto simp: c0_def begin_reconnect_def emit_def backoff_delay_def)
  define c1 where "c1 = session_step c0 RetryFailed"
  have c1: "c1 = c\<lparr>state := Reconnecting, failed_attempts := 1,
      emitted := emitted c @ [ScheduleRetry ?d, ScheduleRetry (?d * 2)]\<rparr>"
    by (simp add: c1_def c0 retry_failed_def emit_def backoff_delay_def max_attempts_def)
  define c2 where "c2 = session_step c1 RetryFailed"
  have c2: "c2 = c\<lparr>state := Reconnecting, failed_attempts := 2,
      emitted := emitted c @ [ScheduleRetry ?d, ScheduleRetry (?d * 2), ScheduleRetry (?d * 4)]\<rparr>"
    by (simp add: c2_def c1 retry_failed_def emit_def backoff_delay_def max_attempts_def)
  define c3 where "c3 = session_step c2 RetryFailed"
  have c3: "c3 = c\<lparr>state := Reconnecting, failed_attempts := 3,
      emitted := emitted c @ [ScheduleRetry ?d, ScheduleRetry (?d * 2), ScheduleRetry (?d * 4),
        ScheduleRetry (?d * 8)]\<rparr>"
    by (simp add: c3_def c2 retry_failed_def emit_def backoff_delay_def max_attempts_def)
  define c4 where "c4 = session_step c3 RetryFailed"
  have c4: "c4 = c\<lparr>state := Reconnecting, failed_attempts := 4,
      emitted := emitted c @ [ScheduleRetry ?d, ScheduleRetry (?d * 2), ScheduleRetry (?d * 4),
        ScheduleRetry (?d * 8), ScheduleRetry (?d * 16)]\<rparr>"
    by (simp add: c4_def c3 retry_failed_def emit_def backoff_delay_def max_attempts_def)
  have c5: "session_step c4 RetryFailed = c\<lparr>state := Closed, failed_attempts := 5,
      emitted := emitted c @ [ScheduleRetry ?d, ScheduleRetry (?d * 2), ScheduleRetry (?d * 4),
        ScheduleRetry (?d * 8), ScheduleRetry (?d * 16), TerminalFailure]\<rparr>"
    by (simp add: c4 retry_failed_def emit_def max_attempts_def)
  have "session_run (ev # replicate 5 RetryFailed) c = session_step c4 RetryFailed"
    by (simp add: replicate_five session_run_def c4_def c3_def c2_def c1_def c0_def)
  with c5 show ?thesis by simp
qed

text \<open>
  C7. When an active session loses its transport or its heartbeat, the controller schedules
  a retry; each failed retry doubles the delay of the next one, and the fifth failed retry
  closes the session and reports the terminal failure. From then on the controller stays
  closed, whatever happens: it schedules no retry and reports nothing more (a teardown may
  still release the resources). Over every sequence of events the terminal failure is
  reported at most once, a reconnecting controller has fewer than five failed attempts
  behind it, and once an active session has lost its heartbeat and five retries have
  failed, the terminal failure has been reported exactly once.
\<close>

theorem reconnect_closes_after_five_failures:
  "(state c = Active \<and> (ev = TransportFailed \<or> ev = HeartbeatTimedOut) \<and>
    c' = session_run (ev # replicate 5 RetryFailed) c \<longrightarrow>
      state c' = Closed
      \<and> emitted c' = emitted c @
          [ScheduleRetry (base_delay c), ScheduleRetry (base_delay c * 2),
           ScheduleRetry (base_delay c * 4), ScheduleRetry (base_delay c * 8),
           ScheduleRetry (base_delay c * 16), TerminalFailure]
      \<and> state (session_run es c') = Closed
      \<and> (emitted (session_run es c') = emitted c' \<or>
          emitted (session_run es c') = emitted c' @ [ReleaseResources]))
   \<and> count_list (emitted (session_run es (new_controller d))) TerminalFailure \<le> 1
   \<and> (state (session_run es (new_controller d)) = Reconnecting \<longrightarrow>
        failed_attempts (session_run es (new_controller d)) < 5)
   \<and> (state (session_run es (new_controller d)) = Active \<longrightarrow>
        count_list
          (emitted (session_run (es @ HeartbeatTimedOut # replicate 5 RetryFailed)
                      (new_controller d)))
          TerminalFailure = 1)"
proof (intro conjI impI)
  assume a: "state c = Active \<and> (ev = TransportFailed \<or> ev = HeartbeatTimedOut) \<and>
    c' = session_run (ev # replicate 5 RetryFailed) c"
  then have c': "c' =
     c\<lparr>state := Closed, failed_attempts := 5,
       emitted := emitted c @
         [ScheduleRetry (base_delay c), ScheduleRetry (base_delay c * 2),
          ScheduleRetry (base_delay c * 4), ScheduleRetry (base_delay c * 8),
          ScheduleRetry (base_delay c * 16), TerminalFailure]\<rparr>"
    using five_failures [of c ev] by simp
  then show cl: "state c' = Closed"
    and "emitted c' = emitted c @
          [ScheduleRetry (base_delay c), ScheduleRetry (base_delay c * 2),
           ScheduleRetry (base_delay c * 4), ScheduleRetry (base_delay c * 8),
           ScheduleRetry (base_delay c * 16), TerminalFailure]"
    by simp_all
  from closed_run [OF cl, of es]
  show "state (session_run es c') = Closed"
    and "emitted (session_run es c') = emitted c' \<or>
          emitted (session_run es c') = emitted c' @ [ReleaseResources]"
    by simp_all
next
  have "failure_reported_once (session_run es (new_controller d))"
    by (rule failure_reported_once_run)
      (simp add: failure_reported_once_def new_controller_def)
  then show "count_list (emitted (session_run es (new_controller d))) TerminalFailure \<le> 1"
    and "state (session_run es (new_controller d)) = Reconnecting \<Longrightarrow>
        failed_attempts (session_run es (new_controller d)) < 5"
    by (simp_all add: failure_reported_once_def max_attempts_def)
next
  let ?c = "session_run es (new_controller d)"
  assume a: "state ?c = Active"
  have "failure_reported_once ?c"
    by (rule failure_reported_once_run)
      (simp add: failure_reported_once_def new_controller_def)
  with a have "count_list (emitted ?c) TerminalFailure = 0"
    by (simp add: failure_reported_once_def)
  with five_failures [OF a, of HeartbeatTimedOut]
  show "count_list
          (emitted (session_run (es @ HeartbeatTimedOut # replicate 5 RetryFailed)
                      (new_controller d)))
          TerminalFailure = 1"
    by (simp add: session_run_append)
qed

theorem reconnect_closes_after_five_failures_witness:
  "state active_controller = Active
   \<and> state (session_run (HeartbeatTimedOut # replicate 5 RetryFailed) active_controller) = Closed
   \<and> emitted (session_run (HeartbeatTimedOut # replicate 5 RetryFailed) active_controller) =
       [ScheduleRetry 100, ScheduleRetry 200, ScheduleRetry 400, ScheduleRetry 800,
        ScheduleRetry 1600, TerminalFailure]
   \<and> emitted (session_run [RetryFailed, HandshakeSucceeded, Teardown, Teardown]
        (session_run (HeartbeatTimedOut # replicate 5 RetryFailed) active_controller)) =
       [ScheduleRetry 100, ScheduleRetry 200, ScheduleRetry 400, ScheduleRetry 800,
        ScheduleRetry 1600, TerminalFailure, ReleaseResources]
   \<and> count_list
       (emitted (session_run
          ([SessionCreated, HandshakeSucceeded] @ HeartbeatTimedOut # replicate 5 RetryFailed)
          (new_controller 100))) TerminalFailure = 1"
proof -
  have a: "state active_controller = Active" "base_delay active_controller = 100"
    "emitted active_controller = []" "released active_controller = False"
    by (simp_all add: active_controller_def session_run_def new_controller_def)
  let ?c' = "session_run (HeartbeatTimedOut # replicate 5 RetryFailed) active_controller"
  note t = reconnect_closes_after_five_failures
             [of active_controller HeartbeatTimedOut ?c'
                 "[RetryFailed, HandshakeSucceeded, Teardown, Teardown]" 100]
  from t a have s: "state ?c' = Closed"
    and e: "emitted ?c' =
       [ScheduleRetry 100, ScheduleRetry 200, ScheduleRetry 400, ScheduleRetry 800,
        ScheduleRetry 1600, TerminalFailure]"
    by simp_all
  have r: "released ?c' = False"
    using five_failures [of active_controller HeartbeatTimedOut] a by simp
  have "emitted (session_run [RetryFailed, HandshakeSucceeded, Teardown, Teardown] ?c') =
     emitted ?c' @ [ReleaseResources]"
    using s r by (simp add: session_run_def teardown_def emit_def)
  moreover
  note t' = reconnect_closes_after_five_failures
             [of active_controller HeartbeatTimedOut ?c'
                 "[SessionCreated, HandshakeSucceeded]" 100]
  have "state (session_run [SessionCreated, HandshakeSucceeded] (new_controller 100)) = Active"
    using a(1) by (simp add: active_controller_def)
  with t' have "count_list
       (emitted (session_run
          ([SessionCreated, HandshakeSucceeded] @ HeartbeatTimedOut # replicate 5 RetryFailed)
          (new_controller 100))) TerminalFailure = 1"
    by blast
  ultimately show ?thesis using a s e by simp
qed

end
